theory Spec2Isabelle
  imports Complex_Main "HOL-Library.Log_Nat"
begin

section \<open>The generic buyer skill: data model\<close>

text \<open>
  The development follows \<^verbatim>\<open>packages/fetchai/skills/generic_buyer/behaviours.py\<close>:
  the search behaviour and the transaction behaviour (the request lifecycle scheduler).
  Python objects become records, mutation becomes state passing, and every exception
  the code can raise is a value of the type \<open>error\<close>.

  Times (\<open>tick_interval\<close>, \<open>max_processing\<close>, \<open>processing_time\<close>) are Python floats
  in the source. A finite float is modelled as the rational number it denotes, so the
  comparison \<open>\<le>\<close> is the one of the rationals, and the addition of two floats is
  \<open>float_add\<close>, which rounds the exact sum as binary64 arithmetic does. Calls to the
  logger are left out: they change no state of the skill.
\<close>

type_synonym address = string

text \<open>The terms of a transaction and a search query are opaque payloads for both behaviours.\<close>

type_synonym terms = string
type_synonym query = string

datatype error = ValueError | IndexError | KeyError

text \<open>
  Modelled from the spec: the classes \<^verbatim>\<open>DialogueLabel\<close>, \<^verbatim>\<open>Message\<close>,
  \<^verbatim>\<open>Dialogue\<close> and \<^verbatim>\<open>Dialogues\<close> of \<^verbatim>\<open>aea.protocols.dialogue.base\<close> are
  not among the sources. A label has a starter and a responder reference and the two
  addresses; a reference is a concrete value or the reserved placeholder; a message
  carries its performative with the payload, the dialogue reference, its id and its
  target.
\<close>

datatype reference = Unassigned | Reference nat

record dialogue_label =
  starter_reference :: reference
  responder_reference :: reference
  starter_address :: address
  responder_address :: address

datatype content = GET_RAW_TRANSACTION terms | SEARCH_SERVICES query

record message =
  performative :: content
  dialogue_reference :: "reference \<times> reference"
  message_id :: nat
  target :: nat

record dialogue =
  dialogue_label :: dialogue_label

text \<open>
  \<^verbatim>\<open>FipaDialogue\<close> and \<^verbatim>\<open>LedgerApiDialogue\<close> are dialogues with the attributes the
  behaviours read: \<^verbatim>\<open>terms\<close> and \<^verbatim>\<open>associated_fipa_dialogue\<close>. The comparison
  \<^verbatim>\<open>self.processing == ledger_api_dialogue\<close> is equality of these records.
\<close>

record fipa_dialogue = dialogue +
  terms :: terms

record ledger_api_dialogue = dialogue +
  associated_fipa_dialogue :: fipa_dialogue

text \<open>
  Modelled from the spec: the dialogue registry. \<open>nonce\<close> is the monotonic counter
  behind \<^verbatim>\<open>new_starter_reference()\<close>, and \<open>stored\<close> lists the labels under which
  the registry has stored the dialogues it created.
\<close>

record dialogues =
  self_address :: address
  nonce :: nat
  stored :: "dialogue_label list"

text \<open>
  Modelled from the spec: \<^verbatim>\<open>Dialogues.create(counterparty, performative, payload)\<close>
  builds the message with id 1 and target 0 and a fresh incomplete label with the local
  agent as starter, stores the new dialogue under that label and returns both.
\<close>

definition create :: "dialogues \<Rightarrow> address \<Rightarrow> content \<Rightarrow> (message \<times> dialogue) \<times> dialogues" where
  "create reg counterparty c =
     (let ref = Reference (nonce reg);
          label = \<lparr>starter_reference = ref, responder_reference = Unassigned,
                   starter_address = self_address reg, responder_address = counterparty\<rparr>;
          msg = \<lparr>performative = c, dialogue_reference = (ref, Unassigned),
                 message_id = 1, target = 0\<rparr>
      in ((msg, \<lparr>dialogue_label = label\<rparr>),
          reg\<lparr>nonce := Suc (nonce reg), stored := stored reg @ [label]\<rparr>))"

text \<open>
  \<^verbatim>\<open>GenericStrategy\<close> is not among the sources either. The behaviours read its
  attribute \<^verbatim>\<open>is_searching\<close>; the rest of the object is the extension of the record,
  and its two methods are parameters of \<open>search_act\<close>.
\<close>

record generic_strategy =
  is_searching :: bool

text \<open>
  The state of the skill: the part of the skill context the behaviours use
  (\<^verbatim>\<open>outbox\<close>, the two dialogue registries, the strategy, the address of the search
  service), the module constant \<^verbatim>\<open>LEDGER_API_ADDRESS\<close> (its value is declared with the
  ledger connection, outside the sources), and the attributes of
  \<^verbatim>\<open>GenericTransactionBehaviour\<close>, which the search behaviour reaches through
  \<^verbatim>\<open>self.context.behaviours.transaction\<close>.
\<close>

record 'g skill =
  outbox :: "message list"
  ledger_api_dialogues :: dialogues
  oef_search_dialogues :: dialogues
  strategy :: "'g generic_strategy_scheme"
  search_service_address :: address
  ledger_api_address :: address
  tick_interval :: rat
  max_processing :: rat
  processing_time :: rat
  waiting :: "fipa_dialogue list"
  processing :: "ledger_api_dialogue option"
  timedout :: "dialogue_label set"

section \<open>Floating-point addition\<close>

text \<open>
  Python's \<^verbatim>\<open>float\<close> is IEEE 754 binary64, and \<^verbatim>\<open>+=\<close> on floats rounds the exact sum
  to the nearest double, ties to the even significand. \<open>pow2 k\<close> is \<open>2\<close> to the power
  \<open>k\<close>; \<open>exponent y\<close> is the binade of a positive \<open>y\<close>, the \<open>e\<close> with
  \<open>pow2 e \<le> y < pow2 (e + 1)\<close>. Doubles of the binade \<open>e\<close> are spaced \<open>pow2 (e - 52)\<close>
  apart, and below the binade \<open>-1022\<close> (subnormal numbers) the spacing stays
  \<open>pow2 (-1074)\<close>. The model has no infinity: a result of magnitude \<open>pow2 1024\<close> or more,
  which Python stores as \<^verbatim>\<open>inf\<close>, is left as the large number it is, above every finite
  double as \<^verbatim>\<open>inf\<close> is. Neither NaN nor the sign of zero is modelled.
\<close>

definition pow2 :: "int \<Rightarrow> rat" where
  "pow2 k = (if 0 \<le> k then 2 ^ nat k else 1 / 2 ^ nat (- k))"

definition exponent :: "rat \<Rightarrow> int" where
  "exponent y = (if 1 \<le> y then bitlen \<lfloor>y\<rfloor> - 1 else - bitlen (\<lceil>1 / y\<rceil> - 1))"

definition round_half_even :: "rat \<Rightarrow> int" where
  "round_half_even r =
     (let f = \<lfloor>r\<rfloor>; d = r - of_int f
      in if d < 1 / 2 then f else if 1 / 2 < d then f + 1
         else if even f then f else f + 1)"

definition float_round :: "rat \<Rightarrow> rat" where
  "float_round x =
     (if x = 0 then 0
      else let u = pow2 (max (exponent \<bar>x\<bar>) (- 1022) - 52)
           in of_int (round_half_even (x / u)) * u)"

definition float_add :: "rat \<Rightarrow> rat \<Rightarrow> rat" where
  "float_add a b = float_round (a + b)"

section \<open>The search behaviour\<close>

text \<open>
  \<^verbatim>\<open>GenericSearchBehaviour.act\<close>. The parameters \<open>update_search_query_params\<close> and
  \<open>get_location_and_service_query\<close> are the strategy's methods of these names.
\<close>

definition search_act ::
  "('g generic_strategy_scheme \<Rightarrow> 'g generic_strategy_scheme) \<Rightarrow>
   ('g generic_strategy_scheme \<Rightarrow> query) \<Rightarrow> 'g skill \<Rightarrow> 'g skill" where
  "search_act update_search_query_params get_location_and_service_query s =
     (if \<not> is_searching (strategy s) then s
      else
        let remaining_transactions_count = length (waiting s) in
        if remaining_transactions_count > 0 then s
        else
          let strategy' = update_search_query_params (strategy s);
              query = get_location_and_service_query strategy'
          in (case create (oef_search_dialogues s) (search_service_address s)
                     (SEARCH_SERVICES query) of
                ((oef_search_msg, _), oef_search_dialogues') \<Rightarrow>
                  s\<lparr>strategy := strategy',
                    oef_search_dialogues := oef_search_dialogues',
                    outbox := outbox s @ [oef_search_msg]\<rparr>))"

section \<open>The transaction behaviour\<close>

text \<open>
  \<^verbatim>\<open>_start_processing\<close>: \<^verbatim>\<open>self.waiting.pop(0)\<close> raises \<^verbatim>\<open>IndexError\<close> on an
  empty list. The dialogue returned by the registry gets the popped request as its
  \<^verbatim>\<open>associated_fipa_dialogue\<close> and goes into the processing slot.
\<close>

definition start_processing :: "'g skill \<Rightarrow> error + 'g skill" where
  "start_processing s =
     (case waiting s of
        [] \<Rightarrow> Inl IndexError
      | fipa_dialogue # remaining \<Rightarrow>
          (case create (ledger_api_dialogues s) (ledger_api_address s)
                  (GET_RAW_TRANSACTION (terms fipa_dialogue)) of
             ((ledger_api_msg, d), ledger_api_dialogues') \<Rightarrow>
               Inr (s\<lparr>waiting := remaining,
                       ledger_api_dialogues := ledger_api_dialogues',
                       processing_time := 0,
                       processing := Some \<lparr>dialogue_label = dialogue_label d,
                                            associated_fipa_dialogue = fipa_dialogue\<rparr>,
                       outbox := outbox s @ [ledger_api_msg]\<rparr>)))"

text \<open>\<^verbatim>\<open>_timeout_processing\<close>.\<close>

definition timeout_processing :: "'g skill \<Rightarrow> 'g skill" where
  "timeout_processing s =
     (case processing s of
        None \<Rightarrow> s
      | Some p \<Rightarrow>
          s\<lparr>timedout := insert (dialogue_label p) (timedout s),
            waiting := waiting s @ [associated_fipa_dialogue p],
            processing_time := 0,
            processing := None\<rparr>)"

text \<open>
  \<^verbatim>\<open>GenericTransactionBehaviour.act\<close>, one tick of the scheduler. The statement
  \<^verbatim>\<open>self.processing_time += self.tick_interval\<close> adds two floats. After a timeout the
  code does not return: it goes on to the test of the waiting queue.
\<close>

definition act :: "'g skill \<Rightarrow> error + 'g skill" where
  "act s =
     (if processing s \<noteq> None \<and> processing_time s \<le> max_processing s
      then Inr (s\<lparr>processing_time := float_add (processing_time s) (tick_interval s)\<rparr>)
      else
        let s1 = (if processing s \<noteq> None then timeout_processing s else s) in
        if length (waiting s1) = 0 then Inr s1
        else start_processing s1)"

text \<open>\<^verbatim>\<open>set.remove\<close> raises \<^verbatim>\<open>KeyError\<close> when the element is absent.\<close>

definition set_remove :: "'a set \<Rightarrow> 'a \<Rightarrow> error + 'a set" where
  "set_remove A x = (if x \<in> A then Inr (A - {x}) else Inl KeyError)"

text \<open>\<^verbatim>\<open>finish_processing\<close>.\<close>

definition finish_processing :: "'g skill \<Rightarrow> ledger_api_dialogue \<Rightarrow> error + 'g skill" where
  "finish_processing s ledger_api_dialogue =
     (if processing s = Some ledger_api_dialogue
      then Inr (s\<lparr>processing_time := 0, processing := None\<rparr>)
      else if dialogue_label ledger_api_dialogue \<notin> timedout s then Inl ValueError
      else (case set_remove (timedout s) (dialogue_label ledger_api_dialogue) of
              Inl e \<Rightarrow> Inl e
            | Inr timedout' \<Rightarrow> Inr (s\<lparr>timedout := timedout'\<rparr>)))"

text \<open>\<^verbatim>\<open>failed_processing\<close>: an exception of \<^verbatim>\<open>finish_processing\<close> propagates.\<close>

definition failed_processing :: "'g skill \<Rightarrow> ledger_api_dialogue \<Rightarrow> error + 'g skill" where
  "failed_processing s ledger_api_dialogue =
     (case finish_processing s ledger_api_dialogue of
        Inl e \<Rightarrow> Inl e
      | Inr s' \<Rightarrow>
          Inr (s'\<lparr>waiting := waiting s' @ [associated_fipa_dialogue ledger_api_dialogue]\<rparr>))"

section \<open>Sequences of scheduler operations\<close>

text \<open>
  The operations that mutate the scheduler: a tick, a reply and a failure reply. A
  sequence of them stops at the first exception, which reaches the caller.
\<close>

datatype event = Tick | Finish ledger_api_dialogue | Failed ledger_api_dialogue

fun step :: "event \<Rightarrow> 'g skill \<Rightarrow> error + 'g skill" where
  "step Tick s = act s"
| "step (Finish d) s = finish_processing s d"
| "step (Failed d) s = failed_processing s d"

fun run :: "event list \<Rightarrow> 'g skill \<Rightarrow> error + 'g skill" where
  "run [] s = Inr s"
| "run (e # es) s = (case step e s of Inl err \<Rightarrow> Inl err | Inr s' \<Rightarrow> run es s')"

text \<open>The scheduler's own attributes in a result: queue, slot, elapsed time, timed-out labels.\<close>

definition observe ::
  "error + 'g skill \<Rightarrow>
   error + fipa_dialogue list \<times> ledger_api_dialogue option \<times> rat \<times> dialogue_label set" where
  "observe r = map_sum id (\<lambda>s. (waiting s, processing s, processing_time s, timedout s)) r"

section \<open>Concrete scenarios\<close>

text \<open>
  Two requests \<open>A\<close> and \<open>B\<close> of an agent \<open>buyer\<close>, a fresh skill whose transaction
  behaviour is as \<^verbatim>\<open>__init__\<close> leaves it, with a tick period of 1 and
  \<open>max_processing = 2\<close>, and the dialogues the registry creates first and second.
\<close>

definition fipa_label :: "nat \<Rightarrow> dialogue_label" where
  "fipa_label n = \<lparr>starter_reference = Reference n, responder_reference = Reference n,
                    starter_address = ''buyer'', responder_address = ''seller''\<rparr>"

definition fipa_A :: fipa_dialogue where
  "fipa_A = \<lparr>dialogue_label = fipa_label 0, terms = ''terms A''\<rparr>"

definition fipa_B :: fipa_dialogue where
  "fipa_B = \<lparr>dialogue_label = fipa_label 1, terms = ''terms B''\<rparr>"

definition request_msg :: "nat \<Rightarrow> fipa_dialogue \<Rightarrow> message" where
  "request_msg n f = \<lparr>performative = GET_RAW_TRANSACTION (terms f),
                       dialogue_reference = (Reference n, Unassigned),
                       message_id = 1, target = 0\<rparr>"

definition ledger_label :: "nat \<Rightarrow> dialogue_label" where
  "ledger_label n = \<lparr>starter_reference = Reference n, responder_reference = Unassigned,
                      starter_address = ''buyer'', responder_address = ''ledger''\<rparr>"

definition ledger_dialogue :: "nat \<Rightarrow> fipa_dialogue \<Rightarrow> ledger_api_dialogue" where
  "ledger_dialogue n f = \<lparr>dialogue_label = ledger_label n, associated_fipa_dialogue = f\<rparr>"

definition registry :: "dialogue_label list \<Rightarrow> dialogues" where
  "registry ls = \<lparr>self_address = ''buyer'', nonce = length ls, stored = ls\<rparr>"

definition fresh_skill :: "fipa_dialogue list \<Rightarrow> unit skill" where
  "fresh_skill q =
     \<lparr>outbox = [],
      ledger_api_dialogues = registry [],
      oef_search_dialogues = registry [],
      strategy = \<lparr>is_searching = True\<rparr>,
      search_service_address = ''search'',
      ledger_api_address = ''ledger'',
      tick_interval = 1,
      max_processing = 2,
      processing_time = 0,
      waiting = q,
      processing = None,
      timedout = {}\<rparr>"

text \<open>\<open>A\<close> in the slot for a time \<open>t\<close> while \<open>B\<close> waits: the state one tick after \<open>[A, B]\<close>.\<close>

definition busy_skill :: "rat \<Rightarrow> unit skill" where
  "busy_skill t =
     (fresh_skill [fipa_B])
       \<lparr>outbox := [request_msg 0 fipa_A],
        ledger_api_dialogues := registry [ledger_label 0],
        processing_time := t,
        processing := Some (ledger_dialogue 0 fipa_A)\<rparr>"

text \<open>
  \<open>A\<close> was alone in the queue, timed out and was submitted again at once: the state
  five ticks after \<open>[A]\<close>.
\<close>

definition retried_skill :: "unit skill" where
  "retried_skill =
     (fresh_skill [])
       \<lparr>outbox := [request_msg 0 fipa_A, request_msg 1 fipa_A],
        ledger_api_dialogues := registry [ledger_label 0, ledger_label 1],
        processing := Some (ledger_dialogue 1 fipa_A),
        timedout := {ledger_label 0}\<rparr>"

text \<open>
  \<open>A\<close> timed out while \<open>B\<close> waited, and the same tick took \<open>B\<close> into the slot:
  the state five ticks after \<open>[A, B]\<close>.
\<close>

definition timed_out_skill :: "unit skill" where
  "timed_out_skill =
     (fresh_skill [fipa_A])
       \<lparr>outbox := [request_msg 0 fipa_A, request_msg 1 fipa_B],
        ledger_api_dialogues := registry [ledger_label 0, ledger_label 1],
        processing := Some (ledger_dialogue 1 fipa_B),
        timedout := {ledger_label 0}\<rparr>"

text \<open>
  A tick period of a tenth of a second with the default \<open>max_processing\<close> of 120:
  \<open>tenth\<close>, \<open>seven_tenths\<close> and \<open>almost_eight_tenths\<close> are the doubles that Python
  writes \<^verbatim>\<open>0.1\<close>, \<^verbatim>\<open>0.7\<close> and \<^verbatim>\<open>0.7999999999999999\<close>.
\<close>

definition tenth :: rat where
  "tenth = 3602879701896397 / 36028797018963968"

definition seven_tenths :: rat where
  "seven_tenths = 3152519739159347 / 4503599627370496"

definition almost_eight_tenths :: rat where
  "almost_eight_tenths = 7205759403792793 / 9007199254740992"

definition decimal_skill :: "rat \<Rightarrow> unit skill" where
  "decimal_skill t = (busy_skill t)\<lparr>tick_interval := tenth, max_processing := 120\<rparr>"

text \<open>An elapsed time of \<open>2 ^ 53\<close> seconds, where the doubles are 2 apart.\<close>

definition saturated_skill :: "unit skill" where
  "saturated_skill = (busy_skill (2 ^ 53))\<lparr>max_processing := 2 ^ 54\<rparr>"

definition sample_query :: "generic_strategy \<Rightarrow> query" where
  "sample_query g = ''query''"

section \<open>Basic facts\<close>

subsection \<open>The rounding of a sum\<close>

lemma pow2_pos: "0 < pow2 k"
  by (simp add: pow2_def)

lemma pow2_Suc: "pow2 (k + 1) = 2 * pow2 k"
proof (cases "0 \<le> k")
  case True
  then show ?thesis by (simp add: pow2_def nat_add_distrib)
next
  case False
  then have "nat (- k) = Suc (nat (- (k + 1)))" by simp
  with False show ?thesis
    by (cases "k + 1 = 0") (auto simp: pow2_def)
qed

lemma pow2_half: "pow2 (k - 1) = pow2 k / 2"
  using pow2_Suc [of "k - 1"] by simp

lemma pow2_sub: "pow2 (k - int n) = pow2 k / 2 ^ n"
proof (induction n)
  case 0
  then show ?case by simp
next
  case (Suc n)
  have "pow2 (k - int (Suc n)) = pow2 (k - int n - 1)" by (simp add: algebra_simps)
  also have "\<dots> = pow2 (k - int n) / 2" by (rule pow2_half)
  finally show ?case by (simp add: Suc.IH)
qed

text \<open>A positive number is not below the power of two of its binade.\<close>

lemma exponent_lower: "0 < y \<Longrightarrow> pow2 (exponent y) \<le> y"
proof (cases "1 \<le> y")
  case True
  then have f: "0 < \<lfloor>y\<rfloor>" by simp
  then have "1 \<le> bitlen \<lfloor>y\<rfloor>" by (simp add: bitlen_alt_def)
  moreover have "2 ^ nat (bitlen \<lfloor>y\<rfloor> - 1) \<le> \<lfloor>y\<rfloor>"
    using bitlen_bounds [OF f] by simp
  then have "(of_int (2 ^ nat (bitlen \<lfloor>y\<rfloor> - 1)) :: rat) \<le> of_int \<lfloor>y\<rfloor>"
    by (simp only: of_int_le_iff)
  then have "(of_int (2 ^ nat (bitlen \<lfloor>y\<rfloor> - 1)) :: rat) \<le> y"
    using of_int_floor_le [of y] by (rule order_trans)
  then have "(2 :: rat) ^ nat (bitlen \<lfloor>y\<rfloor> - 1) \<le> y"
    by simp
  ultimately show ?thesis
    using True by (simp add: exponent_def pow2_def)
next
  case False
  assume y: "0 < y"
  with False have "1 < 1 / y" by simp
  then have c: "2 \<le> \<lceil>1 / y\<rceil>" by (simp add: less_ceiling_iff)
  let ?n = "\<lceil>1 / y\<rceil> - 1"
  from c have n: "0 < ?n" by simp
  then have k: "1 \<le> bitlen ?n" by (simp add: bitlen_alt_def)
  have "?n < 2 ^ nat (bitlen ?n)"
    using bitlen_bounds [OF n] by simp
  then have "\<lceil>1 / y\<rceil> \<le> 2 ^ nat (bitlen ?n)" by simp
  then have "(of_int \<lceil>1 / y\<rceil> :: rat) \<le> of_int (2 ^ nat (bitlen ?n))"
    by (simp only: of_int_le_iff)
  with le_of_int_ceiling [of "1 / y"]
  have "1 / y \<le> of_int (2 ^ nat (bitlen ?n))"
    by (rule order_trans)
  then have "1 / y \<le> 2 ^ nat (bitlen ?n)"
    by simp
  then have "1 / 2 ^ nat (bitlen ?n) \<le> y"
    using y by (simp add: field_simps)
  then show ?thesis
    using False k by (simp add: exponent_def pow2_def)
qed

lemma round_half_even_error: "\<bar>of_int (round_half_even r) - r\<bar> \<le> 1 / 2"
proof -
  define d where "d = r - of_int \<lfloor>r\<rfloor>"
  have d: "0 \<le> d" "d < 1"
    unfolding d_def by linarith+
  have r: "r = of_int \<lfloor>r\<rfloor> + d"
    by (simp add: d_def)
  consider "d < 1 / 2" | "1 / 2 < d" | "d = 1 / 2"
    by linarith
  then show ?thesis
  proof cases
    case 1
    then have "round_half_even r = \<lfloor>r\<rfloor>"
      by (simp add: round_half_even_def Let_def d_def)
    with r d 1 show ?thesis by (simp add: abs_if)
  next
    case 2
    then have "round_half_even r = \<lfloor>r\<rfloor> + 1"
      by (simp add: round_half_even_def Let_def d_def)
    then have "of_int (round_half_even r) - r = 1 - d"
      using r by simp
    with d 2 show ?thesis by (simp add: abs_if)
  next
    case 3
    then have "round_half_even r = \<lfloor>r\<rfloor> \<or> round_half_even r = \<lfloor>r\<rfloor> + 1"
      by (simp add: round_half_even_def Let_def d_def)
    then have "of_int (round_half_even r) - r = - d \<or> of_int (round_half_even r) - r = 1 - d"
      using r by auto
    with 3 show ?thesis by (auto simp: abs_if)
  qed
qed

text \<open>The rounded value is within half the spacing of the doubles around the number.\<close>

lemma float_round_error:
  "\<bar>float_round x - x\<bar> \<le> pow2 (max (exponent \<bar>x\<bar>) (- 1022) - 53)"
proof (cases "x = 0")
  case True
  then show ?thesis by (simp add: float_round_def pow2_pos less_imp_le)
next
  case False
  let ?k = "max (exponent \<bar>x\<bar>) (- 1022) - 52"
  let ?u = "pow2 ?k"
  have u: "0 < ?u" by (rule pow2_pos)
  have "float_round x - x = (of_int (round_half_even (x / ?u)) - x / ?u) * ?u"
    using False u by (simp add: float_round_def Let_def algebra_simps)
  then have "\<bar>float_round x - x\<bar> = \<bar>of_int (round_half_even (x / ?u)) - x / ?u\<bar> * ?u"
    using u by (simp add: abs_mult)
  also have "\<dots> \<le> (1 / 2) * ?u"
    using round_half_even_error [of "x / ?u"] u by (intro mult_right_mono) simp_all
  also have "\<dots> = pow2 (max (exponent \<bar>x\<bar>) (- 1022) - 53)"
    using pow2_half [of ?k] by simp
  finally show ?thesis .
qed

lemma float_round_relative:
  "\<bar>float_round x - x\<bar> \<le> max (\<bar>x\<bar> / 2 ^ 53) (1 / 2 ^ 1075)"
proof (cases "x = 0")
  case True
  then show ?thesis by (simp add: float_round_def)
next
  case False
  then have pos: "0 < \<bar>x\<bar>" by simp
  show ?thesis
  proof (cases "- 1022 \<le> exponent \<bar>x\<bar>")
    case True
    then have "\<bar>float_round x - x\<bar> \<le> pow2 (exponent \<bar>x\<bar> - 53)"
      using float_round_error [of x] by (simp add: max_def)
    also have "\<dots> = pow2 (exponent \<bar>x\<bar>) / 2 ^ 53"
      using pow2_sub [of "exponent \<bar>x\<bar>" 53] by simp
    also have "\<dots> \<le> \<bar>x\<bar> / 2 ^ 53"
      using exponent_lower [OF pos] by (simp add: divide_right_mono)
    finally show ?thesis by (simp add: le_max_iff_disj)
  next
    case False
    then have "\<bar>float_round x - x\<bar> \<le> pow2 (- 1075)"
      using float_round_error [of x] by (simp add: max_def)
    also have "\<dots> = 1 / 2 ^ 1075"
      by (simp add: pow2_def)
    finally show ?thesis by (simp add: le_max_iff_disj)
  qed
qed

text \<open>The sums of the scenarios: whole ticks are exact, a tenth is not.\<close>

lemma float_add_whole_ticks:
  "float_add 0 1 = 1" "float_add 1 1 = 2" "float_add 2 1 = 3"
  by code_simp+

lemma float_add_tenth: "float_add seven_tenths tenth = almost_eight_tenths"
  by code_simp

lemma float_add_saturated: "float_add (2 ^ 53) 1 = 2 ^ 53"
  by code_simp

subsection \<open>The branches of a tick\<close>

lemmas scenario_defs =
  fresh_skill_def busy_skill_def retried_skill_def timed_out_skill_def registry_def
  ledger_dialogue_def ledger_label_def request_msg_def


lemma timeout_processing_None: "processing s = None \<Longrightarrow> timeout_processing s = s"
  by (simp add: timeout_processing_def)

lemma act_busy:
  "processing s = Some p \<Longrightarrow> processing_time s \<le> max_processing s \<Longrightarrow>
   act s = Inr (s\<lparr>processing_time := float_add (processing_time s) (tick_interval s)\<rparr>)"
  by (simp add: act_def)

lemma act_idle_empty: "processing s = None \<Longrightarrow> waiting s = [] \<Longrightarrow> act s = Inr s"
  by (simp add: act_def)

lemma act_idle: "processing s = None \<Longrightarrow> waiting s \<noteq> [] \<Longrightarrow> act s = start_processing s"
  by (simp add: act_def)



text \<open>A tick never raises: \<^verbatim>\<open>pop(0)\<close> is reached with a non-empty queue only.\<close>

lemma act_returns: "\<exists>s'. act s = Inr s'"
  by (auto simp: act_def Let_def start_processing_def split: list.splits prod.splits)

lemma run_append:
  "run (es @ fs) s = (case run es s of Inl err \<Rightarrow> Inl err | Inr s' \<Rightarrow> run fs s')"
  by (induction es arbitrary: s) (auto split: sum.splits)

subsection \<open>The scenarios are reachable\<close>

lemma first_tick: "run [Tick] (fresh_skill [fipa_A, fipa_B]) = Inr (busy_skill 0)"
  by (simp add: act_def start_processing_def create_def Let_def scenario_defs)

lemma busy_tick: "t \<le> 2 \<Longrightarrow> act (busy_skill t) = Inr (busy_skill (float_add t 1))"
  by (simp add: act_def scenario_defs)

lemma expired_tick: "act (busy_skill 3) = Inr timed_out_skill"
  by (simp add: act_def start_processing_def timeout_processing_def create_def Let_def
        scenario_defs)

lemma five_ticks_alone:
  "run [Tick, Tick, Tick, Tick, Tick] (fresh_skill [fipa_A]) = Inr retried_skill"
  by (simp add: act_def start_processing_def timeout_processing_def create_def Let_def
        float_add_whole_ticks scenario_defs)

section \<open>Replies: \<^verbatim>\<open>finish_processing\<close>\<close>

text \<open>
  Claim C1. For every reply delivered through \<open>finish_processing\<close>: if the reply's
  dialogue is the one in the processing slot, the slot is cleared and the elapsed time is
  reset to 0, and nothing else changes (in particular nothing is re-enqueued); otherwise,
  if the label of the reply's dialogue is in \<open>timedout\<close>, the label is removed from that
  set and nothing else changes (the reply is discarded); otherwise \<open>ValueError\<close> is
  raised, and it reaches the caller: \<open>failed_processing\<close> and a sequence of operations
  end with it.
\<close>

theorem finish_processing_reply:
  "(processing s = Some d \<longrightarrow>
      finish_processing s d = Inr (s\<lparr>processing_time := 0, processing := None\<rparr>)) \<and>
   (processing s \<noteq> Some d \<and> dialogue_label d \<in> timedout s \<longrightarrow>
      finish_processing s d = Inr (s\<lparr>timedout := timedout s - {dialogue_label d}\<rparr>)) \<and>
   (processing s \<noteq> Some d \<and> dialogue_label d \<notin> timedout s \<longrightarrow>
      finish_processing s d = Inl ValueError \<and>
      failed_processing s d = Inl ValueError \<and>
      run (Finish d # evs) s = Inl ValueError)"
proof -
  have match: "finish_processing s d = Inr (s\<lparr>processing_time := 0, processing := None\<rparr>)"
    if "processing s = Some d"
    using that by (simp add: finish_processing_def)
  have late: "finish_processing s d = Inr (s\<lparr>timedout := timedout s - {dialogue_label d}\<rparr>)"
    if "processing s \<noteq> Some d" and "dialogue_label d \<in> timedout s"
    using that by (simp add: finish_processing_def set_remove_def)
  have mismatch: "finish_processing s d = Inl ValueError"
    if "processing s \<noteq> Some d" and "dialogue_label d \<notin> timedout s"
    using that by (simp add: finish_processing_def)
  have propagates:
    "failed_processing s d = Inl ValueError \<and> run (Finish d # evs) s = Inl ValueError"
    if "finish_processing s d = Inl ValueError"
    using that by (simp add: failed_processing_def)
  from match late mismatch propagates show ?thesis by blast
qed

theorem finish_processing_reply_witness:
  "(processing (busy_skill 1) = Some (ledger_dialogue 0 fipa_A) \<and>
    finish_processing (busy_skill 1) (ledger_dialogue 0 fipa_A) =
      Inr ((busy_skill 1)\<lparr>processing_time := 0, processing := None\<rparr>)) \<and>
   (processing retried_skill \<noteq> Some (ledger_dialogue 0 fipa_A) \<and>
    dialogue_label (ledger_dialogue 0 fipa_A) \<in> timedout retried_skill \<and>
    finish_processing retried_skill (ledger_dialogue 0 fipa_A) =
      Inr (retried_skill\<lparr>timedout := {}\<rparr>)) \<and>
   (processing (fresh_skill []) \<noteq> Some (ledger_dialogue 0 fipa_A) \<and>
    dialogue_label (ledger_dialogue 0 fipa_A) \<notin> timedout (fresh_skill []) \<and>
    finish_processing (fresh_skill []) (ledger_dialogue 0 fipa_A) = Inl ValueError \<and>
    run [Finish (ledger_dialogue 0 fipa_A), Tick] (fresh_skill []) = Inl ValueError)"
  using finish_processing_reply [of "busy_skill 1" "ledger_dialogue 0 fipa_A" "[]"]
        finish_processing_reply [of retried_skill "ledger_dialogue 0 fipa_A" "[]"]
        finish_processing_reply [of "fresh_skill []" "ledger_dialogue 0 fipa_A" "[Tick]"]
  by (simp add: scenario_defs)

text \<open>
  Claim C7. A late reply for a dialogue whose label is in \<open>timedout\<close>, arriving while a
  different request occupies the processing slot, is discarded: its label leaves
  \<open>timedout\<close>, and the slot, the elapsed time, the waiting queue and everything else
  stay as they were.
\<close>

theorem late_reply_discarded:
  assumes "processing s = Some p" and "p \<noteq> d" and "dialogue_label d \<in> timedout s"
  shows "finish_processing s d = Inr (s\<lparr>timedout := timedout s - {dialogue_label d}\<rparr>) \<and>
         observe (finish_processing s d) =
           Inr (waiting s, Some p, processing_time s, timedout s - {dialogue_label d})"
  using assms by (simp add: finish_processing_def set_remove_def observe_def)

theorem late_reply_discarded_witness:
  "processing retried_skill = Some (ledger_dialogue 1 fipa_A) \<and>
   ledger_dialogue 1 fipa_A \<noteq> ledger_dialogue 0 fipa_A \<and>
   dialogue_label (ledger_dialogue 0 fipa_A) \<in> timedout retried_skill \<and>
   observe (finish_processing retried_skill (ledger_dialogue 0 fipa_A)) =
     Inr ([], Some (ledger_dialogue 1 fipa_A), 0, {})"
proof -
  have h1: "processing retried_skill = Some (ledger_dialogue 1 fipa_A)"
    by (simp add: retried_skill_def)
  have h2: "ledger_dialogue 1 fipa_A \<noteq> ledger_dialogue 0 fipa_A"
    by (simp add: ledger_dialogue_def ledger_label_def)
  have h3: "dialogue_label (ledger_dialogue 0 fipa_A) \<in> timedout retried_skill"
    by (simp add: retried_skill_def ledger_dialogue_def)
  have "observe (finish_processing retried_skill (ledger_dialogue 0 fipa_A)) =
     Inr ([], Some (ledger_dialogue 1 fipa_A), 0, {})"
    using late_reply_discarded [OF h1 h2 h3]
    by (simp add: observe_def retried_skill_def fresh_skill_def ledger_dialogue_def)
  with h1 h2 h3 show ?thesis by blast
qed

section \<open>Ticks: \<^verbatim>\<open>act\<close>\<close>

text \<open>
  Claim C5 as stated has the tick increment the elapsed time by exactly one tick period.
  The elapsed time is a float. With a tick period of \<^verbatim>\<open>0.1\<close> and an elapsed time of
  \<^verbatim>\<open>0.7\<close> the tick stores \<^verbatim>\<open>0.7999999999999999\<close>, which is not the sum of the two; with
  a tick period of 1 and an elapsed time of \<open>2 ^ 53\<close> the tick leaves the elapsed time
  as it is.
\<close>

theorem act_float_sum_counterexample:
  "act (decimal_skill seven_tenths) = Inr (decimal_skill almost_eight_tenths) \<and>
   almost_eight_tenths \<noteq> seven_tenths + tenth \<and>
   act saturated_skill = Inr saturated_skill \<and>
   processing_time saturated_skill + tick_interval saturated_skill \<noteq>
     processing_time saturated_skill"
proof -
  have le: "seven_tenths \<le> 120"
    by (simp add: seven_tenths_def)
  have "act (decimal_skill seven_tenths) = Inr (decimal_skill almost_eight_tenths)"
    using le by (simp add: act_def decimal_skill_def busy_skill_def float_add_tenth)
  moreover have "almost_eight_tenths \<noteq> seven_tenths + tenth"
    by (simp add: almost_eight_tenths_def seven_tenths_def tenth_def)
  moreover have "act saturated_skill = Inr saturated_skill"
    by (simp add: act_def saturated_skill_def busy_skill_def fresh_skill_def
          float_add_saturated [simplified])
  moreover have "processing_time saturated_skill + tick_interval saturated_skill \<noteq>
     processing_time saturated_skill"
    by (simp add: saturated_skill_def busy_skill_def fresh_skill_def)
  ultimately show ?thesis by blast
qed

text \<open>
  Claim C5, amended. A tick taken while the processing slot is occupied and the elapsed
  time has not exceeded \<open>max_processing\<close> replaces the elapsed time by the floating-point
  sum of the elapsed time and one tick period, and changes nothing else: the waiting
  queue, the request in the slot and \<open>timedout\<close> are as before, and the outbox receives
  no message. The floating-point sum is the exact sum rounded to a double: while the
  exact sum is in the range of the finite doubles, the two differ by at most the exact
  sum divided by \<open>2 ^ 53\<close> (by at most \<open>1 / 2 ^ 1075\<close> for a subnormal sum).
\<close>

theorem act_processing_adds_tick:
  assumes "processing s = Some p" and "processing_time s \<le> max_processing s"
  shows "act s = Inr (s\<lparr>processing_time := float_add (processing_time s) (tick_interval s)\<rparr>) \<and>
         observe (act s) =
           Inr (waiting s, Some p, float_add (processing_time s) (tick_interval s),
                timedout s) \<and>
         map_sum id outbox (act s) = Inr (outbox s) \<and>
         (\<bar>processing_time s + tick_interval s\<bar> < 2 ^ 1023 \<longrightarrow>
            \<bar>float_add (processing_time s) (tick_interval s) -
               (processing_time s + tick_interval s)\<bar>
              \<le> max (\<bar>processing_time s + tick_interval s\<bar> / 2 ^ 53) (1 / 2 ^ 1075))"
proof -
  have tick: "act s = Inr (s\<lparr>processing_time := float_add (processing_time s) (tick_interval s)\<rparr>)"
    using assms by (rule act_busy)
  have frame: "observe (act s) =
           Inr (waiting s, Some p, float_add (processing_time s) (tick_interval s),
                timedout s)"
    "map_sum id outbox (act s) = Inr (outbox s)"
    using assms(1) by (simp_all add: tick observe_def)
  have "\<bar>float_add (processing_time s) (tick_interval s) -
               (processing_time s + tick_interval s)\<bar>
              \<le> max (\<bar>processing_time s + tick_interval s\<bar> / 2 ^ 53) (1 / 2 ^ 1075)"
    unfolding float_add_def by (rule float_round_relative)
  with tick frame show ?thesis by blast
qed

theorem act_processing_adds_tick_witness:
  "processing (busy_skill 2) = Some (ledger_dialogue 0 fipa_A) \<and>
   processing_time (busy_skill 2) \<le> max_processing (busy_skill 2) \<and>
   act (busy_skill 2) = Inr (busy_skill 3) \<and>
   observe (act (busy_skill 2)) = Inr ([fipa_B], Some (ledger_dialogue 0 fipa_A), 3, {}) \<and>
   \<bar>processing_time (busy_skill 2) + tick_interval (busy_skill 2)\<bar> < 2 ^ 1023 \<and>
   \<bar>float_add (processing_time (busy_skill 2)) (tick_interval (busy_skill 2)) -
      (processing_time (busy_skill 2) + tick_interval (busy_skill 2))\<bar>
     \<le> max (\<bar>processing_time (busy_skill 2) + tick_interval (busy_skill 2)\<bar> / 2 ^ 53)
           (1 / 2 ^ 1075)"
proof -
  have h1: "processing (busy_skill 2) = Some (ledger_dialogue 0 fipa_A)"
    by (simp add: busy_skill_def)
  have h2: "processing_time (busy_skill 2) \<le> max_processing (busy_skill 2)"
    by (simp add: busy_skill_def fresh_skill_def)
  have h3: "\<bar>processing_time (busy_skill 2) + tick_interval (busy_skill 2)\<bar> < 2 ^ 1023"
    by (simp add: busy_skill_def fresh_skill_def)
  have sum: "float_add (processing_time (busy_skill 2)) (tick_interval (busy_skill 2)) = 3"
    by (simp add: busy_skill_def fresh_skill_def float_add_whole_ticks)
  note inst = act_processing_adds_tick [OF h1 h2]
  have a: "act (busy_skill 2) = Inr (busy_skill 3)"
    using inst by (simp add: sum) (simp add: busy_skill_def)
  have o: "observe (act (busy_skill 2)) =
             Inr ([fipa_B], Some (ledger_dialogue 0 fipa_A), 3, {})"
    unfolding a by (simp add: observe_def busy_skill_def fresh_skill_def)
  have e: "\<bar>float_add (processing_time (busy_skill 2)) (tick_interval (busy_skill 2)) -
      (processing_time (busy_skill 2) + tick_interval (busy_skill 2))\<bar>
     \<le> max (\<bar>processing_time (busy_skill 2) + tick_interval (busy_skill 2)\<bar> / 2 ^ 53)
           (1 / 2 ^ 1075)"
    using inst h3 by blast
  from h1 h2 h3 a o e show ?thesis by blast
qed

text \<open>
  Claim C6. A tick taken with an empty processing slot and a non-empty waiting queue
  removes exactly the head of the queue, has the registry create the request for the
  head's terms and puts that message into the outbox, places the new dialogue, with the
  head as its associated request, in the processing slot, and sets the elapsed time to 0.
\<close>

theorem act_idle_dequeues_head:
  assumes "processing s = None" and "waiting s = f # rest"
    and "create (ledger_api_dialogues s) (ledger_api_address s) (GET_RAW_TRANSACTION (terms f))
           = ((msg, d), reg')"
  shows "act s =
           Inr (s\<lparr>waiting := rest, ledger_api_dialogues := reg', processing_time := 0,
                  processing := Some \<lparr>dialogue_label = dialogue_label d,
                                       associated_fipa_dialogue = f\<rparr>,
                  outbox := outbox s @ [msg]\<rparr>)"
  using assms by (simp add: act_def start_processing_def)

theorem act_idle_dequeues_head_witness:
  "processing (fresh_skill [fipa_A, fipa_B]) = None \<and>
   waiting (fresh_skill [fipa_A, fipa_B]) = fipa_A # [fipa_B] \<and>
   create (ledger_api_dialogues (fresh_skill [fipa_A, fipa_B]))
     (ledger_api_address (fresh_skill [fipa_A, fipa_B])) (GET_RAW_TRANSACTION (terms fipa_A))
     = ((request_msg 0 fipa_A, \<lparr>dialogue_label = ledger_label 0\<rparr>), registry [ledger_label 0]) \<and>
   act (fresh_skill [fipa_A, fipa_B]) = Inr (busy_skill 0)"
proof -
  have c: "create (ledger_api_dialogues (fresh_skill [fipa_A, fipa_B]))
     (ledger_api_address (fresh_skill [fipa_A, fipa_B])) (GET_RAW_TRANSACTION (terms fipa_A))
     = ((request_msg 0 fipa_A, \<lparr>dialogue_label = ledger_label 0\<rparr>), registry [ledger_label 0])"
    by (simp add: create_def Let_def scenario_defs)
  have p: "processing (fresh_skill [fipa_A, fipa_B]) = None"
    by (simp add: fresh_skill_def)
  have w: "waiting (fresh_skill [fipa_A, fipa_B]) = fipa_A # [fipa_B]"
    by (simp add: fresh_skill_def)
  show ?thesis
    using act_idle_dequeues_head [OF p w c] c by (simp add: scenario_defs)
qed



section \<open>The scenario of two requests\<close>

text \<open>
  The scenario of claim C3 as stated: queue \<open>[A, B]\<close>, empty slot, \<open>max_processing = 2\<close>
  and a tick period of 1. The claim has \<open>A\<close> time out at the third tick, leaving the
  queue \<open>[B, A]\<close> and the slot empty. After the third tick the code has \<open>A\<close> still in
  the slot with the elapsed time 2, which does not exceed the maximum, the queue \<open>[B]\<close>
  and no label in \<open>timedout\<close>.
\<close>

theorem scenario_tick3_counterexample:
  "observe (run [Tick, Tick, Tick] (fresh_skill [fipa_A, fipa_B])) =
     Inr ([fipa_B], Some (ledger_dialogue 0 fipa_A), 2, {}) \<and>
   observe (run [Tick, Tick, Tick] (fresh_skill [fipa_A, fipa_B])) \<noteq>
     Inr ([fipa_B, fipa_A], None, 0, {ledger_label 0})"
  by (simp add: observe_def act_def start_processing_def create_def Let_def
        float_add_whole_ticks scenario_defs)

text \<open>
  Claim C3, amended. From the queue \<open>[A, B]\<close>, an empty slot, \<open>max_processing = 2\<close> and
  a tick period of 1: tick 1 dequeues \<open>A\<close> into the slot; after ticks 2, 3 and 4 \<open>A\<close> is
  still processing with the elapsed times 1, 2 and 3; at tick 5 the elapsed time 3 exceeds
  the maximum, \<open>A\<close> times out, its label joins \<open>timedout\<close>, \<open>A\<close> is appended to the
  tail, and the same tick dequeues \<open>B\<close> into the slot, which leaves the queue \<open>[A]\<close>.
\<close>

theorem scenario_five_ticks:
  "observe (run [Tick] (fresh_skill [A, B])) =
     Inr ([B], Some (ledger_dialogue 0 A), 0, {}) \<and>
   observe (run [Tick, Tick] (fresh_skill [A, B])) =
     Inr ([B], Some (ledger_dialogue 0 A), 1, {}) \<and>
   observe (run [Tick, Tick, Tick] (fresh_skill [A, B])) =
     Inr ([B], Some (ledger_dialogue 0 A), 2, {}) \<and>
   observe (run [Tick, Tick, Tick, Tick] (fresh_skill [A, B])) =
     Inr ([B], Some (ledger_dialogue 0 A), 3, {}) \<and>
   observe (run [Tick, Tick, Tick, Tick, Tick] (fresh_skill [A, B])) =
     Inr ([A], Some (ledger_dialogue 1 B), 0, {ledger_label 0})"
  by (simp add: observe_def act_def start_processing_def timeout_processing_def create_def
        Let_def float_add_whole_ticks scenario_defs)

theorem scenario_five_ticks_witness:
  "observe (run [Tick, Tick, Tick, Tick] (fresh_skill [fipa_A, fipa_B])) =
     Inr ([fipa_B], Some (ledger_dialogue 0 fipa_A), 3, {}) \<and>
   observe (run [Tick, Tick, Tick, Tick, Tick] (fresh_skill [fipa_A, fipa_B])) =
     Inr ([fipa_A], Some (ledger_dialogue 1 fipa_B), 0, {ledger_label 0})"
  using scenario_five_ticks [of fipa_A fipa_B] by blast

section \<open>Failure replies: \<^verbatim>\<open>failed_processing\<close>\<close>

text \<open>
  Claim C4 as stated has the failed request appended in every case. A failure reply for a
  dialogue that is neither in the slot nor in \<open>timedout\<close> (here: a failure reply after
  the reply that finished the same dialogue) raises \<open>ValueError\<close> in
  \<open>finish_processing\<close>, before the append is reached.
\<close>

theorem failed_processing_unknown_counterexample:
  "observe (run [Tick, Finish (ledger_dialogue 0 fipa_A)] (fresh_skill [fipa_A])) =
     Inr ([], None, 0, {}) \<and>
   run [Tick, Finish (ledger_dialogue 0 fipa_A), Failed (ledger_dialogue 0 fipa_A)]
     (fresh_skill [fipa_A]) = Inl ValueError"
  by (simp add: observe_def act_def start_processing_def create_def Let_def
        finish_processing_def failed_processing_def scenario_defs)

text \<open>
  Claim C4, amended. A failure reply whose dialogue is in the processing slot clears the
  slot and appends the failed request to the tail of the waiting queue; one whose
  dialogue is not in the slot but whose label is in \<open>timedout\<close> removes the label and
  appends the request to the tail; there is no limit on the attempts. A failure reply
  that matches neither raises \<open>ValueError\<close> and appends nothing.
\<close>

theorem failed_processing_requeues:
  "(processing s = Some d \<longrightarrow>
      failed_processing s d =
        Inr (s\<lparr>processing_time := 0, processing := None,
               waiting := waiting s @ [associated_fipa_dialogue d]\<rparr>)) \<and>
   (processing s \<noteq> Some d \<and> dialogue_label d \<in> timedout s \<longrightarrow>
      failed_processing s d =
        Inr (s\<lparr>timedout := timedout s - {dialogue_label d},
               waiting := waiting s @ [associated_fipa_dialogue d]\<rparr>)) \<and>
   (processing s \<noteq> Some d \<and> dialogue_label d \<notin> timedout s \<longrightarrow>
      failed_processing s d = Inl ValueError)"
proof (cases "finish_processing s d")
  case (Inl e)
  then have "processing s \<noteq> Some d" and "dialogue_label d \<notin> timedout s"
    by (auto simp: finish_processing_def set_remove_def split: if_splits)
  moreover have "e = ValueError"
    using Inl by (auto simp: finish_processing_def set_remove_def split: if_splits)
  ultimately show ?thesis
    using Inl by (simp add: failed_processing_def)
next
  case (Inr s1)
  then have appended:
    "failed_processing s d = Inr (s1\<lparr>waiting := waiting s1 @ [associated_fipa_dialogue d]\<rparr>)"
    by (simp add: failed_processing_def)
  show ?thesis
  proof (cases "processing s = Some d")
    case True
    with Inr have "s1 = s\<lparr>processing_time := 0, processing := None\<rparr>"
      by (simp add: finish_processing_def)
    with True appended show ?thesis by simp
  next
    case False
    with Inr have "dialogue_label d \<in> timedout s"
      and "s1 = s\<lparr>timedout := timedout s - {dialogue_label d}\<rparr>"
      by (auto simp: finish_processing_def set_remove_def split: if_splits)
    with False appended show ?thesis by simp
  qed
qed

theorem failed_processing_requeues_witness:
  "(processing (busy_skill 1) = Some (ledger_dialogue 0 fipa_A) \<and>
    observe (failed_processing (busy_skill 1) (ledger_dialogue 0 fipa_A)) =
      Inr ([fipa_B, fipa_A], None, 0, {})) \<and>
   (processing retried_skill \<noteq> Some (ledger_dialogue 0 fipa_A) \<and>
    dialogue_label (ledger_dialogue 0 fipa_A) \<in> timedout retried_skill \<and>
    observe (failed_processing retried_skill (ledger_dialogue 0 fipa_A)) =
      Inr ([fipa_A], Some (ledger_dialogue 1 fipa_A), 0, {})) \<and>
   (processing (fresh_skill []) \<noteq> Some (ledger_dialogue 0 fipa_A) \<and>
    dialogue_label (ledger_dialogue 0 fipa_A) \<notin> timedout (fresh_skill []) \<and>
    failed_processing (fresh_skill []) (ledger_dialogue 0 fipa_A) = Inl ValueError)"
  using failed_processing_requeues [of "busy_skill 1" "ledger_dialogue 0 fipa_A"]
        failed_processing_requeues [of retried_skill "ledger_dialogue 0 fipa_A"]
        failed_processing_requeues [of "fresh_skill []" "ledger_dialogue 0 fipa_A"]
  by (simp add: observe_def scenario_defs)

text \<open>
  Claim C9 as stated has two copies of the request in the queue after a failure reply for
  a request that timed out. When \<open>A\<close> waited alone, the timeout tick appended \<open>A\<close> and
  dequeued it again at once; the failure reply for the first dialogue of \<open>A\<close> then
  leaves one copy of \<open>A\<close> in the queue, the other being in the slot.
\<close>

theorem late_failure_single_copy_counterexample:
  "observe (run [Tick, Tick, Tick, Tick, Tick] (fresh_skill [fipa_A])) =
     Inr ([], Some (ledger_dialogue 1 fipa_A), 0, {ledger_label 0}) \<and>
   dialogue_label (ledger_dialogue 0 fipa_A) = ledger_label 0 \<and>
   observe (run [Tick, Tick, Tick, Tick, Tick, Failed (ledger_dialogue 0 fipa_A)]
              (fresh_skill [fipa_A])) =
     Inr ([fipa_A], Some (ledger_dialogue 1 fipa_A), 0, {}) \<and>
   count_list [fipa_A] fipa_A = 1"
  by (simp add: observe_def act_def start_processing_def timeout_processing_def create_def
        Let_def finish_processing_def failed_processing_def set_remove_def
        float_add_whole_ticks scenario_defs)

text \<open>
  Claim C9, amended. A failure reply for a dialogue whose label is in \<open>timedout\<close> appends
  the same underlying request to the tail of the waiting queue once more, and removes the
  label from \<open>timedout\<close> unless the dialogue is the one in the slot. If the copy that the
  timeout tick appended is still in the queue, two copies of the request are then pending
  in the queue.
\<close>

theorem late_failure_requeues_again:
  assumes "dialogue_label d \<in> timedout s"
  shows "\<exists>s'. failed_processing s d = Inr s' \<and>
           waiting s' = waiting s @ [associated_fipa_dialogue d] \<and>
           count_list (waiting s') (associated_fipa_dialogue d) =
             Suc (count_list (waiting s) (associated_fipa_dialogue d)) \<and>
           (associated_fipa_dialogue d \<in> set (waiting s) \<longrightarrow>
              2 \<le> count_list (waiting s') (associated_fipa_dialogue d)) \<and>
           (processing s \<noteq> Some d \<longrightarrow> timedout s' = timedout s - {dialogue_label d})"
proof -
  have pos: "associated_fipa_dialogue d \<in> set (waiting s) \<Longrightarrow>
             0 < count_list (waiting s) (associated_fipa_dialogue d)"
    using count_list_0_iff [of "waiting s" "associated_fipa_dialogue d"] by auto
  show ?thesis
    using assms pos
    by (auto simp: failed_processing_def finish_processing_def set_remove_def)
qed

theorem late_failure_requeues_again_witness:
  "dialogue_label (ledger_dialogue 0 fipa_A) \<in> timedout timed_out_skill \<and>
   associated_fipa_dialogue (ledger_dialogue 0 fipa_A) \<in> set (waiting timed_out_skill) \<and>
   map_sum id waiting (failed_processing timed_out_skill (ledger_dialogue 0 fipa_A)) =
     Inr [fipa_A, fipa_A] \<and>
   count_list [fipa_A, fipa_A] fipa_A = 2"
proof -
  have h: "dialogue_label (ledger_dialogue 0 fipa_A) \<in> timedout timed_out_skill"
    by (simp add: timed_out_skill_def ledger_dialogue_def)
  have i: "associated_fipa_dialogue (ledger_dialogue 0 fipa_A) \<in> set (waiting timed_out_skill)"
    by (simp add: timed_out_skill_def fresh_skill_def ledger_dialogue_def)
  from late_failure_requeues_again [OF h] obtain s' where
    f: "failed_processing timed_out_skill (ledger_dialogue 0 fipa_A) = Inr s'" and
    w: "waiting s' = waiting timed_out_skill @ [associated_fipa_dialogue (ledger_dialogue 0 fipa_A)]"
    by blast
  have "map_sum id waiting (failed_processing timed_out_skill (ledger_dialogue 0 fipa_A)) =
     Inr [fipa_A, fipa_A]"
    by (simp add: f w) (simp add: timed_out_skill_def fresh_skill_def ledger_dialogue_def)
  moreover have "count_list [fipa_A, fipa_A] fipa_A = 2"
    by simp
  ultimately show ?thesis using h i by blast
qed

section \<open>One request in flight\<close>

text \<open>
  Claim C8. In every state reached by a sequence of ticks, replies and failure replies
  (from any state), the processing slot holds at most one request, and a next operation
  that submits a request (adds to the outbox) is a tick that calls
  \<open>start_processing\<close> on a state whose slot is empty: the state itself, or the state
  after the timeout emptied the slot. It submits exactly one message and leaves the slot
  occupied.
\<close>

theorem one_request_in_flight:
  assumes "run evs s0 = Inr s" and "step ev s = Inr s'"
  shows "card (set_option (processing s)) \<le> 1 \<and>
         (outbox s' \<noteq> outbox s \<longrightarrow>
            ev = Tick \<and>
            (\<exists>m. (m = s \<or> m = timeout_processing s) \<and> processing m = None \<and>
                 outbox m = outbox s \<and> start_processing m = Inr s') \<and>
            (\<exists>msg d. outbox s' = outbox s @ [msg] \<and> processing s' = Some d))"
proof -
  have one: "card (set_option (processing s)) \<le> 1"
    by (cases "processing s") simp_all
  have sub: "ev = Tick \<and>
            (\<exists>m. (m = s \<or> m = timeout_processing s) \<and> processing m = None \<and>
                 outbox m = outbox s \<and> start_processing m = Inr s') \<and>
            (\<exists>msg d. outbox s' = outbox s @ [msg] \<and> processing s' = Some d)"
    if changed: "outbox s' \<noteq> outbox s"
  proof (cases ev)
    case Tick
    with assms(2) have a: "act s = Inr s'" by simp
    show ?thesis
    proof (cases "processing s")
      case None
      with a changed have sp: "start_processing s = Inr s'"
        by (auto simp: act_def split: if_splits)
      then have "\<exists>msg d. outbox s' = outbox s @ [msg] \<and> processing s' = Some d"
        by (auto simp: start_processing_def split: list.splits prod.splits)
      with Tick None sp show ?thesis by auto
    next
      case (Some p)
      with a changed have sp: "start_processing (timeout_processing s) = Inr s'"
        by (auto simp: act_def Let_def timeout_processing_def split: if_splits)
      have m: "processing (timeout_processing s) = None"
              "outbox (timeout_processing s) = outbox s"
        using Some by (simp_all add: timeout_processing_def)
      from sp m have "\<exists>msg d. outbox s' = outbox s @ [msg] \<and> processing s' = Some d"
        by (auto simp: start_processing_def split: list.splits prod.splits)
      with Tick sp m show ?thesis by auto
    qed
  next
    case (Finish d)
    with assms(2) changed show ?thesis
      by (auto simp: finish_processing_def set_remove_def split: if_splits)
  next
    case (Failed d)
    with assms(2) changed show ?thesis
      by (auto simp: failed_processing_def finish_processing_def set_remove_def
            split: if_splits sum.splits)
  qed
  from one sub show ?thesis by blast
qed

theorem one_request_in_flight_witness:
  "run [Tick, Tick, Tick, Tick] (fresh_skill [fipa_A, fipa_B]) = Inr (busy_skill 3) \<and>
   step Tick (busy_skill 3) = Inr timed_out_skill \<and>
   outbox timed_out_skill \<noteq> outbox (busy_skill 3) \<and>
   card (set_option (processing (busy_skill 3))) \<le> 1 \<and>
   processing (timeout_processing (busy_skill 3)) = None \<and>
   start_processing (timeout_processing (busy_skill 3)) = Inr timed_out_skill"
proof -
  have h1: "run [Tick, Tick, Tick, Tick] (fresh_skill [fipa_A, fipa_B]) = Inr (busy_skill 3)"
    by (simp add: act_def start_processing_def create_def Let_def float_add_whole_ticks
          scenario_defs)
  have h2: "step Tick (busy_skill 3) = Inr timed_out_skill"
    by (simp add: expired_tick)
  have h3: "outbox timed_out_skill \<noteq> outbox (busy_skill 3)"
    by (simp add: scenario_defs)
  have p: "processing (busy_skill 3) \<noteq> None"
    by (simp add: busy_skill_def)
  from one_request_in_flight [OF h1 h2] h3
  have c: "card (set_option (processing (busy_skill 3))) \<le> 1"
    and "\<exists>m. (m = busy_skill 3 \<or> m = timeout_processing (busy_skill 3)) \<and>
             processing m = None \<and> outbox m = outbox (busy_skill 3) \<and>
             start_processing m = Inr timed_out_skill"
    by blast+
  then obtain m where
    "m = busy_skill 3 \<or> m = timeout_processing (busy_skill 3)" "processing m = None"
    "start_processing m = Inr timed_out_skill"
    by blast
  with p have "processing (timeout_processing (busy_skill 3)) = None"
    "start_processing (timeout_processing (busy_skill 3)) = Inr timed_out_skill"
    by auto
  with h1 h2 h3 c show ?thesis by blast
qed

section \<open>The search behaviour waits for the scheduler\<close>

text \<open>
  Claim C10. When the waiting queue of the transaction behaviour is not empty, or the
  strategy is not searching, the act of the search behaviour changes nothing: no search
  dialogue is created and the outbox receives no message.
\<close>

theorem search_act_skips:
  assumes "waiting s \<noteq> [] \<or> \<not> is_searching (strategy s)"
  shows "search_act update_search_query_params get_location_and_service_query s = s \<and>
         outbox (search_act update_search_query_params get_location_and_service_query s) =
           outbox s \<and>
         oef_search_dialogues
           (search_act update_search_query_params get_location_and_service_query s) =
           oef_search_dialogues s"
  using assms by (auto simp: search_act_def)

theorem search_act_skips_witness:
  "waiting (busy_skill 0) \<noteq> [] \<and>
   search_act id sample_query (busy_skill 0) = busy_skill 0 \<and>
   \<not> is_searching (strategy ((fresh_skill [])\<lparr>strategy := \<lparr>is_searching = False\<rparr>\<rparr>)) \<and>
   search_act id sample_query ((fresh_skill [])\<lparr>strategy := \<lparr>is_searching = False\<rparr>\<rparr>) =
     (fresh_skill [])\<lparr>strategy := \<lparr>is_searching = False\<rparr>\<rparr>"
proof -
  have h1: "waiting (busy_skill 0) \<noteq> []"
    by (simp add: busy_skill_def fresh_skill_def)
  have h2: "\<not> is_searching (strategy ((fresh_skill [])\<lparr>strategy := \<lparr>is_searching = False\<rparr>\<rparr>))"
    by simp
  from search_act_skips [OF disjI1 [OF h1], of id sample_query]
       search_act_skips [OF disjI2 [OF h2], of id sample_query] h1 h2
  show ?thesis by blast
qed

end
